theory Spec2Isabelle
  imports Main "HOL-Library.Monad_Syntax" "HOL-Library.State_Monad"
begin

section \<open>The algebra of differentiable scalar fields: data\<close>

text \<open>
  The development embeds the class \<^verbatim>\<open>DiffScalarFieldAlgebra\<close> of
  \<^verbatim>\<open>sage/manifolds/differentiable/scalarfield_algebra.py\<close>: its constructor and its
  four methods \<^verbatim>\<open>_coerce_map_from_\<close>, \<^verbatim>\<open>_repr_\<close>, \<^verbatim>\<open>_latex_\<close> and
  \<^verbatim>\<open>__reduce__\<close>. Leading and trailing underscores of the Python names are dropped.
\<close>

subsection \<open>Exceptions\<close>

text \<open>
  A Python call either returns or raises; a raising call is the left injection of a sum.
  \<open>Raised\<close> stands for any exception a collaborator may throw.
\<close>

datatype exn = TypeError | AttributeError | Raised string

subsection \<open>Classes and objects\<close>

text \<open>
  The classes the module speaks about. \<^verbatim>\<open>class DiffScalarFieldAlgebra(ScalarFieldAlgebra)\<close>
  declares the one inheritance edge of the file; \<open>Derived n b\<close> is a class named \<open>n\<close> whose
  \<^verbatim>\<open>__base__\<close> is \<open>b\<close>, such as the dynamic class
  \<^verbatim>\<open>DiffScalarFieldAlgebra_with_category\<close> of the constructor's doctest; \<open>Unrelated n\<close>
  is any class outside this hierarchy.
\<close>

datatype pyclass =
    ScalarFieldAlgebra
  | DiffScalarFieldAlgebra
  | Derived string pyclass
  | Unrelated string

text \<open>\<^verbatim>\<open>issubclass(c, DiffScalarFieldAlgebra)\<close>: walk the chain of bases.\<close>

fun subclass_of_DiffScalarFieldAlgebra :: "pyclass \<Rightarrow> bool" where
  "subclass_of_DiffScalarFieldAlgebra DiffScalarFieldAlgebra = True"
| "subclass_of_DiffScalarFieldAlgebra (Derived n b) = subclass_of_DiffScalarFieldAlgebra b"
| "subclass_of_DiffScalarFieldAlgebra ScalarFieldAlgebra = False"
| "subclass_of_DiffScalarFieldAlgebra (Unrelated n) = False"

text \<open>
  An object carrying the attribute \<^verbatim>\<open>_domain\<close>: its runtime class and the domain it
  stores. The type \<open>'d\<close> of domains (manifolds and their open subsets) is left open:
  the domain classes are collaborators of the module. This is an object on which the
  initialiser of the base class has run, as on every algebra that the constructor builds.
\<close>

record 'd algebra =
  klass :: pyclass
  domain :: 'd

text \<open>
  What \<^verbatim>\<open>_coerce_map_from_\<close> may receive as \<^verbatim>\<open>other\<close>:
  \<^item> the singleton \<^verbatim>\<open>SR\<close>, compared by identity;
  \<^item> an object with a \<^verbatim>\<open>_domain\<close>;
  \<^item> \<open>Bare c\<close>, an object of the class \<open>c\<close> of the hierarchy that has no attribute
    \<^verbatim>\<open>_domain\<close>: Python lets a subclass override \<^verbatim>\<open>__init__\<close> without calling the
    initialiser of its base, and lets \<^verbatim>\<open>__new__\<close> make an instance with no
    initialiser run at all;
  \<^item> any other Python object, named by a label (\<^verbatim>\<open>ZZ\<close>, a string, \<^verbatim>\<open>None\<close>,
    another symbolic ring, ...).
\<close>

datatype 'd pyobj =
    SR
  | Object "'d algebra"
  | Bare pyclass
  | Opaque string

text \<open>\<^verbatim>\<open>isinstance(other, DiffScalarFieldAlgebra)\<close>.\<close>

fun isinstance_DiffScalarFieldAlgebra :: "'d pyobj \<Rightarrow> bool" where
  "isinstance_DiffScalarFieldAlgebra (Object a) = subclass_of_DiffScalarFieldAlgebra (klass a)"
| "isinstance_DiffScalarFieldAlgebra (Bare c) = subclass_of_DiffScalarFieldAlgebra c"
| "isinstance_DiffScalarFieldAlgebra SR = False"
| "isinstance_DiffScalarFieldAlgebra (Opaque n) = False"

subsection \<open>The domain as a collaborator\<close>

text \<open>
  The value of \<^verbatim>\<open>diff_degree()\<close>: Sage's \<^verbatim>\<open>infinity\<close> or an integer.
\<close>

datatype degree = Infinity | Finite int

text \<open>
  The four methods of a domain that the module calls; their code is not part of the
  module, so they are parameters of every definition below.
  \<^item> \<open>is_subset ops d e\<close> is \<^verbatim>\<open>d.is_subset(e)\<close>; it is the one call whose failure
    matters to a property of the module, so it returns a sum;
  \<^item> \<open>diff_degree ops d\<close> is \<^verbatim>\<open>d.diff_degree()\<close>;
  \<^item> \<open>latex_of ops d\<close> is \<^verbatim>\<open>d._latex_()\<close>;
  \<^item> \<open>str_of ops d\<close> is \<^verbatim>\<open>"{}".format(d)\<close>, the string representation of \<open>d\<close>.
\<close>

record 'd domain_ops =
  is_subset :: "'d \<Rightarrow> 'd \<Rightarrow> exn + bool"
  diff_degree :: "'d \<Rightarrow> degree"
  latex_of :: "'d \<Rightarrow> string"
  str_of :: "'d \<Rightarrow> string"

subsection \<open>Formatting an integer\<close>

text \<open>\<^verbatim>\<open>"{}".format(n)\<close> for an integer: decimal digits, with a minus sign below zero.\<close>

definition digit_char :: "nat \<Rightarrow> char" where
  "digit_char n = ''0123456789'' ! (n mod 10)"

fun str_nat :: "nat \<Rightarrow> string" where
  "str_nat n = (if n < 10 then [digit_char n] else str_nat (n div 10) @ [digit_char n])"

declare str_nat.simps [simp del]

definition str_int :: "int \<Rightarrow> string" where
  "str_int i = (if i < 0 then ''-'' @ str_nat (nat (- i)) else str_nat (nat i))"

text \<open>
  Reading a decimal numeral back, to check \<open>str_nat\<close> against: the value of a digit
  and of a string of digits.
\<close>

definition digit_value :: "char \<Rightarrow> nat" where
  "digit_value c = of_char c - 48"

definition nat_of_digits :: "string \<Rightarrow> nat" where
  "nat_of_digits cs = foldl (\<lambda>acc c. 10 * acc + digit_value c) 0 cs"

text \<open>
  \<^verbatim>\<open>"{}".format(degree)\<close>. Sage prints its infinity as \<^verbatim>\<open>+Infinity\<close>, which is why
  \<^verbatim>\<open>_latex_\<close> treats that case apart.
\<close>

fun format_degree :: "degree \<Rightarrow> string" where
  "format_degree (Finite k) = str_int k"
| "format_degree Infinity = ''+Infinity''"

text \<open>The backslash of the raw string literals of the source.\<close>

definition backslash :: string where
  "backslash = [CHR 0x5C]"

section \<open>The methods\<close>

subsection \<open>Construction\<close>

text \<open>
  The class of a freshly built algebra, as the doctest of \<^verbatim>\<open>__init__\<close> prints it:
  \<^verbatim>\<open>type(CM)\<close> is \<^verbatim>\<open>DiffScalarFieldAlgebra_with_category\<close> and
  \<^verbatim>\<open>type(CM).__base__\<close> is \<^verbatim>\<open>DiffScalarFieldAlgebra\<close>.
\<close>

definition DiffScalarFieldAlgebra_with_category :: pyclass where
  "DiffScalarFieldAlgebra_with_category =
     Derived ''DiffScalarFieldAlgebra_with_category'' DiffScalarFieldAlgebra"

text \<open>
  Modelled from the spec: \<^verbatim>\<open>ScalarFieldAlgebra.__init__\<close>, the initialiser of the base
  class, which is not among the sources and to which
  \<^verbatim>\<open>DiffScalarFieldAlgebra.__init__(self, domain)\<close> passes its argument unchanged. The
  spec: "given a domain object, store it".
\<close>

definition init :: "'d \<Rightarrow> 'd algebra" where
  "init d = \<lparr>klass = DiffScalarFieldAlgebra_with_category, domain = d\<rparr>"

text \<open>
  Calling a class on a tuple of arguments, as unpickling does with the pair that
  \<^verbatim>\<open>__reduce__\<close> returns. \<^verbatim>\<open>DiffScalarFieldAlgebra\<close> takes exactly one argument; the
  constructors of the other classes are outside the module.
\<close>

fun construct :: "pyclass \<Rightarrow> 'd list \<Rightarrow> exn + 'd algebra" where
  "construct DiffScalarFieldAlgebra [d] = Inr (init d)"
| "construct DiffScalarFieldAlgebra args = Inl TypeError"
| "construct c args = Inl (Raised ''constructor outside the module'')"

subsection \<open>Coercion\<close>

text \<open>
  \<^verbatim>\<open>
  def _coerce_map_from_(self, other):
      if other is SR:
          return True
      elif isinstance(other, DiffScalarFieldAlgebra):
          return self._domain.is_subset(other._domain)
      else:
          return False
  \<close>
\<close>

text \<open>
  The attribute read \<^verbatim>\<open>x._domain\<close>: an object without the attribute raises.
\<close>

fun getattr_domain :: "'d pyobj \<Rightarrow> exn + 'd" where
  "getattr_domain (Object a) = Inr (domain a)"
| "getattr_domain (Bare c) = Inl AttributeError"
| "getattr_domain SR = Inl AttributeError"
| "getattr_domain (Opaque n) = Inl AttributeError"

definition coerce_map_from :: "'d domain_ops \<Rightarrow> 'd algebra \<Rightarrow> 'd pyobj \<Rightarrow> exn + bool" where
  "coerce_map_from ops self other =
     (if other = SR then Inr True
      else if isinstance_DiffScalarFieldAlgebra other then
        (case getattr_domain other of
           Inl e \<Rightarrow> Inl e
         | Inr d \<Rightarrow> is_subset ops (domain self) d)
      else Inr False)"

text \<open>
  The same method with \<^verbatim>\<open>self\<close> any object, so that the read of \<^verbatim>\<open>self._domain\<close>
  may fail as well. Python evaluates \<^verbatim>\<open>self._domain\<close> before the argument
  \<^verbatim>\<open>other._domain\<close>, and both only in the second branch.
\<close>

definition coerce_map_from_obj :: "'d domain_ops \<Rightarrow> 'd pyobj \<Rightarrow> 'd pyobj \<Rightarrow> exn + bool" where
  "coerce_map_from_obj ops self other =
     (if other = SR then Inr True
      else if isinstance_DiffScalarFieldAlgebra other then
        (case getattr_domain self of
           Inl e \<Rightarrow> Inl e
         | Inr d \<Rightarrow>
             (case getattr_domain other of
                Inl e \<Rightarrow> Inl e
              | Inr d' \<Rightarrow> is_subset ops d d'))
      else Inr False)"

subsection \<open>Representations\<close>

text \<open>
  \<^verbatim>\<open>
  def _repr_(self):
      return "Algebra of differentiable scalar fields on " + \
             "the {}".format(self._domain)
  \<close>
\<close>

definition repr :: "'d domain_ops \<Rightarrow> 'd algebra \<Rightarrow> string" where
  "repr ops self =
     ''Algebra of differentiable scalar fields on '' @ (''the '' @ str_of ops (domain self))"

text \<open>
  \<^verbatim>\<open>
  def _latex_(self):
      degree = self._domain.diff_degree()
      if degree == infinity:
          latex_degree = r"\infty"
      else:
          latex_degree = "{}".format(degree)
      return r"C^{" + latex_degree + r"}\left("  + self._domain._latex_() + \
             r"\right)"
  \<close>
\<close>

definition latex :: "'d domain_ops \<Rightarrow> 'd algebra \<Rightarrow> string" where
  "latex ops self =
     (let degree = diff_degree ops (domain self);
          latex_degree = (if degree = Infinity then backslash @ ''infty''
                          else format_degree degree)
      in ''C^{'' @ latex_degree @ (''}'' @ backslash @ ''left('')
           @ latex_of ops (domain self) @ (backslash @ ''right)''))"

subsection \<open>Pickling\<close>

text \<open>
  \<^verbatim>\<open>
  def __reduce__(self):
      return (DiffScalarFieldAlgebra, (self._domain,))
  \<close>
\<close>

definition reduce :: "'d algebra \<Rightarrow> pyclass \<times> 'd list" where
  "reduce self = (DiffScalarFieldAlgebra, [domain self])"

text \<open>Two algebras are equal when their domains are.\<close>

definition algebra_eq :: "'d algebra \<Rightarrow> 'd algebra \<Rightarrow> bool" where
  "algebra_eq a b = (domain a = domain b)"

text \<open>
  The spec's wording of the LaTeX label, \<^verbatim>\<open>C^{k}(domain_latex)\<close>, for comparison with
  \<open>latex\<close>: the same degree, plain parentheses.
\<close>

definition latex_as_specified :: "'d domain_ops \<Rightarrow> 'd algebra \<Rightarrow> string" where
  "latex_as_specified ops self =
     ''C^{''
       @ (if diff_degree ops (domain self) = Infinity then backslash @ ''infty''
          else format_degree (diff_degree ops (domain self)))
       @ ''}('' @ latex_of ops (domain self) @ '')''"

section \<open>The methods as state transformers\<close>

text \<open>
  To speak about what a method changes, the object \<^verbatim>\<open>self\<close> is the state of a state
  monad and every read of \<^verbatim>\<open>self._domain\<close> is a read of that state. The four methods
  contain no assignment, so no transformer below writes.
\<close>

definition get_domain :: "('d algebra, 'd) state" where
  "get_domain = do { self \<leftarrow> State_Monad.get; State_Monad.return (domain self) }"

definition coerce_map_from_st ::
  "'d domain_ops \<Rightarrow> 'd pyobj \<Rightarrow> ('d algebra, exn + bool) state" where
  "coerce_map_from_st ops other =
     (if other = SR then State_Monad.return (Inr True)
      else if isinstance_DiffScalarFieldAlgebra other then
        do { d \<leftarrow> get_domain;
             State_Monad.return
               (case getattr_domain other of
                  Inl e \<Rightarrow> Inl e
                | Inr d' \<Rightarrow> is_subset ops d d') }
      else State_Monad.return (Inr False))"

definition repr_st :: "'d domain_ops \<Rightarrow> ('d algebra, string) state" where
  "repr_st ops =
     do { d \<leftarrow> get_domain;
          State_Monad.return
            (''Algebra of differentiable scalar fields on '' @ (''the '' @ str_of ops d)) }"

definition latex_st :: "'d domain_ops \<Rightarrow> ('d algebra, string) state" where
  "latex_st ops =
     do { d \<leftarrow> get_domain;
          let degree = diff_degree ops d;
          let latex_degree = (if degree = Infinity then backslash @ ''infty''
                              else format_degree degree);
          d' \<leftarrow> get_domain;
          State_Monad.return
            (''C^{'' @ latex_degree @ (''}'' @ backslash @ ''left('')
               @ latex_of ops d' @ (backslash @ ''right)'')) }"

definition reduce_st :: "('d algebra, pyclass \<times> 'd list) state" where
  "reduce_st = do { d \<leftarrow> get_domain; State_Monad.return (DiffScalarFieldAlgebra, [d]) }"

section \<open>A concrete collaborator\<close>

text \<open>
  The theorems below hold for every domain type and every implementation of its four
  methods. To evaluate them, here is one: a domain is a finite set of points with a
  name, a LaTeX name and a degree, and \<open>is_subset\<close> is inclusion of the point sets.
  The three domains follow the doctests: a manifold \<open>M\<close>, an open subset \<open>U\<close> of it,
  and a manifold of finite degree.
\<close>

record region =
  label :: string
  tex :: string
  smoothness :: degree
  points :: "nat set"

definition region_ops :: "region domain_ops" where
  "region_ops = \<lparr>is_subset = (\<lambda>a b. Inr (points a \<subseteq> points b)),
                  diff_degree = smoothness, latex_of = tex, str_of = label\<rparr>"

definition manifold_M :: region where
  "manifold_M = \<lparr>label = ''2-dimensional differentiable manifold M'', tex = ''M'',
                 smoothness = Infinity, points = {0, 1, 2, 3}\<rparr>"

definition subset_U :: region where
  "subset_U = \<lparr>label = ''Open subset U of the 2-dimensional differentiable manifold M'',
               tex = ''U'', smoothness = Infinity, points = {0, 1}\<rparr>"

definition manifold_N :: region where
  "manifold_N = \<lparr>label = ''3-dimensional differentiable manifold N'', tex = ''N'',
                 smoothness = Finite 12, points = {7}\<rparr>"

definition CM :: "region algebra" where
  "CM = init manifold_M"

definition CU :: "region algebra" where
  "CU = init subset_U"

definition CN :: "region algebra" where
  "CN = init manifold_N"

text \<open>
  An instance of a subclass of \<^verbatim>\<open>DiffScalarFieldAlgebra\<close> whose \<^verbatim>\<open>__init__\<close> does not
  call the initialiser of the base class.
\<close>

definition uninitialised :: "region pyobj" where
  "uninitialised = Bare (Derived ''Uninitialised'' DiffScalarFieldAlgebra)"

lemmas example_defs =
  region_ops_def manifold_M_def subset_U_def manifold_N_def CM_def CU_def CN_def
  init_def DiffScalarFieldAlgebra_with_category_def


section \<open>Helper facts\<close>

text \<open>On an initialised algebra the two forms of the method agree.\<close>

lemma coerce_map_from_obj_Object:
  "coerce_map_from_obj ops (Object a) other = coerce_map_from ops a other"
  by (simp add: coerce_map_from_obj_def coerce_map_from_def)

text \<open>The example collaborator's \<open>is_subset\<close> always returns.\<close>

lemma region_ops_total: "\<forall>d e. \<exists>b. is_subset region_ops d e = Inr b"
  by (simp add: region_ops_def)

text \<open>
  An algebra without its \<^verbatim>\<open>_domain\<close> raises as soon as the argument is an instance of
  \<^verbatim>\<open>DiffScalarFieldAlgebra\<close>, before anything is asked of the argument.
\<close>

lemma coerce_map_from_obj_Bare_self:
  "isinstance_DiffScalarFieldAlgebra other \<Longrightarrow>
     coerce_map_from_obj ops (Bare c) other = Inl AttributeError"
  by (cases other) (simp_all add: coerce_map_from_obj_def)

lemma coerce_map_from_Object:
  "subclass_of_DiffScalarFieldAlgebra (klass b) \<Longrightarrow>
     coerce_map_from ops a (Object b) = is_subset ops (domain a) (domain b)"
  by (simp add: coerce_map_from_def)

text \<open>\<open>str_nat\<close> writes the decimal numeral of its argument: reading it back gives the number.\<close>

lemma below_ten:
  assumes "k < (10::nat)"
  shows "k = 0 \<or> k = 1 \<or> k = 2 \<or> k = 3 \<or> k = 4 \<or> k = 5 \<or> k = 6 \<or> k = 7 \<or> k = 8 \<or> k = 9"
  using assms by arith

lemma digit_value_nth:
  assumes "k < 10"
  shows "digit_value (''0123456789'' ! k) = k"
  using below_ten [OF assms] by (elim disjE) (simp_all add: digit_value_def)

lemma digit_value_digit_char: "digit_value (digit_char n) = n mod 10"
  by (simp add: digit_char_def digit_value_nth)

lemma nat_of_digits_snoc: "nat_of_digits (cs @ [c]) = 10 * nat_of_digits cs + digit_value c"
  by (simp add: nat_of_digits_def)

lemma nat_of_digits_str_nat: "nat_of_digits (str_nat n) = n"
proof (induction n rule: str_nat.induct)
  case (1 n)
  show ?case
  proof (cases "n < 10")
    case True
    then show ?thesis
      by (simp add: str_nat.simps [of n] nat_of_digits_def digit_value_digit_char)
  next
    case False
    with "1" have "nat_of_digits (str_nat (n div 10)) = n div 10"
      by simp
    with False show ?thesis
      by (simp add: str_nat.simps [of n] nat_of_digits_snoc digit_value_digit_char)
  qed
qed

text \<open>The transformers compute what the functions do, and hand the object back.\<close>

lemma run_get_domain: "run_state get_domain self = (domain self, self)"
  by (simp add: get_domain_def)

lemma run_coerce_map_from_st:
  "run_state (coerce_map_from_st ops other) self = (coerce_map_from ops self other, self)"
  by (simp add: coerce_map_from_st_def coerce_map_from_def run_get_domain)

lemma run_repr_st: "run_state (repr_st ops) self = (repr ops self, self)"
  by (simp add: repr_st_def repr_def run_get_domain)

lemma run_latex_st: "run_state (latex_st ops) self = (latex ops self, self)"
  by (simp add: latex_st_def latex_def run_get_domain Let_def)

lemma run_reduce_st: "run_state reduce_st self = (reduce self, self)"
  by (simp add: reduce_st_def reduce_def run_get_domain)

text \<open>
  Without the totality of \<open>is_subset\<close> the coercion predicate does raise: the exception
  of the collaborator passes through.
\<close>

lemma coerce_map_from_passes_exception:
  "subclass_of_DiffScalarFieldAlgebra (klass b) \<Longrightarrow>
     is_subset ops (domain a) (domain b) = Inl e \<Longrightarrow>
     coerce_map_from ops a (Object b) = Inl e"
  by (simp add: coerce_map_from_def)

section \<open>Coercion\<close>

text \<open>
  C1, as amended. For algebras \<open>A1\<close> on \<open>D1\<close> and \<open>A2\<close> on \<open>D2\<close> with \<open>D1\<close> a subset of
  \<open>D2\<close>, \<^verbatim>\<open>A1._coerce_map_from_(A2)\<close> returns true, and \<^verbatim>\<open>A2._coerce_map_from_(A1)\<close>
  returns false exactly when \<open>D2\<close> is not a subset of \<open>D1\<close>.
\<close>

theorem coerce_subset_superset:
  assumes "subclass_of_DiffScalarFieldAlgebra (klass A1)"
    and "subclass_of_DiffScalarFieldAlgebra (klass A2)"
    and "is_subset ops (domain A1) (domain A2) = Inr True"
  shows "coerce_map_from ops A1 (Object A2) = Inr True \<and>
         (coerce_map_from ops A2 (Object A1) = Inr False
            \<longleftrightarrow> is_subset ops (domain A2) (domain A1) = Inr False)"
proof
  show "coerce_map_from ops A1 (Object A2) = Inr True"
    using assms(2,3) by (simp add: coerce_map_from_Object)
next
  show "coerce_map_from ops A2 (Object A1) = Inr False
          \<longleftrightarrow> is_subset ops (domain A2) (domain A1) = Inr False"
    using assms(1) by (simp add: coerce_map_from_Object)
qed

text \<open>
  C1, on the doctest: \<open>U\<close> is a subset of \<open>M\<close>, the algebra on \<open>U\<close> accepts the one on
  \<open>M\<close>, and the algebra on \<open>M\<close> does not accept the one on \<open>U\<close>.
\<close>

theorem coerce_subset_superset_witness:
  "subclass_of_DiffScalarFieldAlgebra (klass CU) \<and>
   subclass_of_DiffScalarFieldAlgebra (klass CM) \<and>
   is_subset region_ops (domain CU) (domain CM) = Inr True \<and>
   coerce_map_from region_ops CU (Object CM) = Inr True \<and>
   coerce_map_from region_ops CM (Object CU) = Inr False"
  using coerce_subset_superset [of CU CM region_ops]
  by (simp add: example_defs)

text \<open>
  C1, as stated, fails when the two domains coincide: \<open>M\<close> is a subset of \<open>M\<close>, and the
  call in the other direction is the same call, which returns true, not false.
\<close>

theorem coerce_not_vice_versa_counterexample:
  "is_subset region_ops (domain CM) (domain CM) = Inr True \<and>
   coerce_map_from region_ops CM (Object CM) = Inr True \<and>
   coerce_map_from region_ops CM (Object CM) \<noteq> Inr False"
  by (simp add: coerce_map_from_def example_defs)

text \<open>
  C2. Whatever the algebra, \<^verbatim>\<open>_coerce_map_from_(SR)\<close> returns true.
\<close>

theorem coerce_from_SR: "coerce_map_from ops self SR = Inr True"
  by (simp add: coerce_map_from_def)

text \<open>
  C3. An argument that is neither \<^verbatim>\<open>SR\<close> nor an instance of
  \<^verbatim>\<open>DiffScalarFieldAlgebra\<close> is answered with false.
\<close>

theorem coerce_from_unrelated:
  assumes "other \<noteq> SR"
    and "\<not> isinstance_DiffScalarFieldAlgebra other"
  shows "coerce_map_from ops self other = Inr False"
  using assms by (simp add: coerce_map_from_def)

text \<open>
  C3, on two arguments: an object of another kind, and an algebra of the base class
  \<^verbatim>\<open>ScalarFieldAlgebra\<close>, which has a domain but is not differentiable.
\<close>

theorem coerce_from_unrelated_witness:
  "Opaque ''ZZ'' \<noteq> (SR :: region pyobj) \<and>
   \<not> isinstance_DiffScalarFieldAlgebra (Opaque ''ZZ'' :: region pyobj) \<and>
   coerce_map_from region_ops CM (Opaque ''ZZ'') = Inr False \<and>
   Object \<lparr>klass = ScalarFieldAlgebra, domain = manifold_M\<rparr> \<noteq> SR \<and>
   \<not> isinstance_DiffScalarFieldAlgebra (Object \<lparr>klass = ScalarFieldAlgebra, domain = manifold_M\<rparr>) \<and>
   coerce_map_from region_ops CM (Object \<lparr>klass = ScalarFieldAlgebra, domain = manifold_M\<rparr>)
     = Inr False"
  using coerce_from_unrelated [of "Opaque ''ZZ''" region_ops CM]
    coerce_from_unrelated [of "Object \<lparr>klass = ScalarFieldAlgebra, domain = manifold_M\<rparr>"
      region_ops CM]
  by simp

text \<open>
  C7, as amended. \<^verbatim>\<open>_coerce_map_from_\<close> raises nothing and returns a boolean, false
  for an argument of a non-matching type, if the domain's \<^verbatim>\<open>is_subset\<close> always returns
  and if, whenever the argument is an instance of \<^verbatim>\<open>DiffScalarFieldAlgebra\<close>, both the
  algebra and the argument have their attribute \<^verbatim>\<open>_domain\<close>.
\<close>

theorem coerce_never_raises:
  assumes total: "\<forall>d e. \<exists>b. is_subset ops d e = Inr b"
    and self_domain: "isinstance_DiffScalarFieldAlgebra other \<Longrightarrow> \<exists>d. getattr_domain self = Inr d"
    and other_domain: "isinstance_DiffScalarFieldAlgebra other \<Longrightarrow> \<exists>d. getattr_domain other = Inr d"
  shows "(\<exists>b. coerce_map_from_obj ops self other = Inr b) \<and>
         (other \<noteq> SR \<and> \<not> isinstance_DiffScalarFieldAlgebra other
            \<longrightarrow> coerce_map_from_obj ops self other = Inr False)"
proof
  show "\<exists>b. coerce_map_from_obj ops self other = Inr b"
  proof (cases "other = SR")
    case True
    then have "coerce_map_from_obj ops self other = Inr True"
      by (simp add: coerce_map_from_obj_def)
    then show ?thesis ..
  next
    case notSR: False
    show ?thesis
    proof (cases "isinstance_DiffScalarFieldAlgebra other")
      case True
      from self_domain [OF True] obtain d where d: "getattr_domain self = Inr d" ..
      from other_domain [OF True] obtain d' where d': "getattr_domain other = Inr d'" ..
      from total obtain b where "is_subset ops d d' = Inr b"
        by blast
      with notSR True d d' have "coerce_map_from_obj ops self other = Inr b"
        by (simp add: coerce_map_from_obj_def)
      then show ?thesis ..
    next
      case False
      with notSR have "coerce_map_from_obj ops self other = Inr False"
        by (simp add: coerce_map_from_obj_def)
      then show ?thesis ..
    qed
  qed
next
  show "other \<noteq> SR \<and> \<not> isinstance_DiffScalarFieldAlgebra other
          \<longrightarrow> coerce_map_from_obj ops self other = Inr False"
    by (simp add: coerce_map_from_obj_def)
qed

text \<open>
  C7, on the example collaborator, whose \<open>is_subset\<close> always returns, with the algebras of
  \<open>M\<close> and of \<open>U\<close>, which have their domains, and with an argument of another kind.
\<close>

theorem coerce_never_raises_witness:
  "(\<forall>d e. \<exists>b. is_subset region_ops d e = Inr b) \<and>
   getattr_domain (Object CM) = Inr manifold_M \<and>
   getattr_domain (Object CU) = Inr subset_U \<and>
   coerce_map_from_obj region_ops (Object CM) (Object CU) = Inr False \<and>
   coerce_map_from region_ops CM (Object CU) = Inr False \<and>
   coerce_map_from_obj region_ops (Object CM) (Opaque ''ZZ'') = Inr False"
proof -
  have dM: "getattr_domain (Object CM) = Inr manifold_M"
    by (simp add: CM_def init_def)
  have dU: "getattr_domain (Object CU) = Inr subset_U"
    by (simp add: CU_def init_def)
  have "\<exists>b. coerce_map_from_obj region_ops (Object CM) (Object CU) = Inr b"
    using coerce_never_raises
      [OF region_ops_total, where self = "Object CM" and other = "Object CU"] dM dU
    by blast
  then have obj: "coerce_map_from_obj region_ops (Object CM) (Object CU) = Inr False"
    by (simp add: coerce_map_from_obj_def example_defs)
  then have rec: "coerce_map_from region_ops CM (Object CU) = Inr False"
    by (simp add: coerce_map_from_obj_Object)
  have "coerce_map_from_obj region_ops (Object CM) (Opaque ''ZZ'') = Inr False"
    using coerce_never_raises
      [OF region_ops_total, where self = "Object CM" and other = "Opaque ''ZZ''"]
    by simp
  with dM dU obj rec region_ops_total show ?thesis
    by blast
qed

text \<open>
  C7, as stated, fails on an argument that is an instance of \<^verbatim>\<open>DiffScalarFieldAlgebra\<close>
  without the attribute \<^verbatim>\<open>_domain\<close>: it passes the \<^verbatim>\<open>isinstance\<close> test, and the read
  of \<^verbatim>\<open>other._domain\<close> raises, although the example collaborator's \<open>is_subset\<close> always
  returns and the algebra of \<open>M\<close> has its domain.
\<close>

theorem coerce_raises_without_domain_counterexample:
  "isinstance_DiffScalarFieldAlgebra uninitialised \<and>
   coerce_map_from region_ops CM uninitialised = Inl AttributeError \<and>
   coerce_map_from_obj region_ops (Object CM) uninitialised = Inl AttributeError"
  by (simp add: coerce_map_from_def coerce_map_from_obj_def uninitialised_def)

text \<open>
  C9. The coercion predicate is reflexive: where the domain's subset test is non-strict
  (\<^verbatim>\<open>D.is_subset(D)\<close> is true), an algebra accepts every algebra on its own domain, and
  itself in particular.
\<close>

theorem coerce_reflexive:
  assumes "subclass_of_DiffScalarFieldAlgebra (klass A)"
    and "subclass_of_DiffScalarFieldAlgebra (klass B)"
    and "domain B = domain A"
    and "is_subset ops (domain A) (domain A) = Inr True"
  shows "coerce_map_from ops A (Object B) = Inr True \<and>
         coerce_map_from ops A (Object A) = Inr True"
  using assms by (simp add: coerce_map_from_Object)

text \<open>
  C9, on the algebra of the manifold \<open>M\<close> and a second algebra on \<open>M\<close> of the class
  \<^verbatim>\<open>DiffScalarFieldAlgebra\<close> itself.
\<close>

theorem coerce_reflexive_witness:
  "subclass_of_DiffScalarFieldAlgebra (klass CM) \<and>
   is_subset region_ops (domain CM) (domain CM) = Inr True \<and>
   coerce_map_from region_ops CM
     (Object \<lparr>klass = DiffScalarFieldAlgebra, domain = manifold_M\<rparr>) = Inr True \<and>
   coerce_map_from region_ops CM (Object CM) = Inr True"
  using coerce_reflexive
    [of CM "\<lparr>klass = DiffScalarFieldAlgebra, domain = manifold_M\<rparr>" region_ops]
  by (simp add: example_defs)

section \<open>Representations\<close>

text \<open>
  C4. \<^verbatim>\<open>_repr_\<close> returns the string "Algebra of differentiable scalar fields on the "
  followed by the string representation of the domain.
\<close>

theorem repr_string:
  "repr ops self = ''Algebra of differentiable scalar fields on the '' @ str_of ops (domain self)"
  by (simp add: repr_def)

text \<open>C4, on the doctest of \<^verbatim>\<open>_repr_\<close>.\<close>

theorem repr_string_witness:
  "repr region_ops CM =
     ''Algebra of differentiable scalar fields on the 2-dimensional differentiable manifold M''"
  using repr_string [of region_ops CM] by (simp add: example_defs)

text \<open>
  C5, as amended. \<^verbatim>\<open>_latex_\<close> returns \<^verbatim>\<open>C^{k}\left(domain_latex\right)\<close>: the
  parentheses around the domain's LaTeX rendering are the sized delimiters
  \<^verbatim>\<open>\left(\<close> and \<^verbatim>\<open>\right)\<close>, and \<open>k\<close> is \<^verbatim>\<open>\infty\<close> for the degree infinity,
  else the integer in its default formatting.
\<close>

theorem latex_string:
  "latex ops self =
     ''C^{''
       @ (case diff_degree ops (domain self) of
            Infinity \<Rightarrow> backslash @ ''infty''
          | Finite k \<Rightarrow> str_int k)
       @ ''}'' @ backslash @ ''left('' @ latex_of ops (domain self) @ backslash @ ''right)''"
  by (simp add: latex_def Let_def split: degree.split)

text \<open>
  C5, on the doctest of \<^verbatim>\<open>_latex_\<close> (a smooth manifold) and on a manifold of class
  \<open>C\<^sup>1\<^sup>2\<close>.
\<close>

theorem latex_string_witness:
  "latex region_ops CM = ''C^{'' @ backslash @ ''infty}'' @ backslash @ ''left(M''
                           @ backslash @ ''right)'' \<and>
   latex region_ops CN = ''C^{12}'' @ backslash @ ''left(N'' @ backslash @ ''right)''"
  using latex_string [of region_ops CM] latex_string [of region_ops CN]
  by (simp add: example_defs str_int_def str_nat.simps digit_char_def)

text \<open>
  C5, as stated, fails on the doctest: the string the method returns is not
  \<^verbatim>\<open>C^{\infty}(M)\<close>, the label written with plain parentheses.
\<close>

theorem latex_plain_parentheses_counterexample:
  "latex_as_specified region_ops CM = ''C^{'' @ backslash @ ''infty}(M)'' \<and>
   latex region_ops CM \<noteq> latex_as_specified region_ops CM"
  by (simp add: latex_def latex_as_specified_def backslash_def example_defs)

section \<open>Pickling\<close>

text \<open>
  C6. \<^verbatim>\<open>__reduce__\<close> returns a constructor and the one-element tuple of the domain, and
  the constructor applied to that tuple returns an algebra equal to the original one,
  equality being equality of the domains.
\<close>

theorem reduce_roundtrip:
  "snd (reduce a) = [domain a] \<and>
   (\<exists>b. construct (fst (reduce a)) (snd (reduce a)) = Inr b \<and> algebra_eq b a)"
  by (simp add: reduce_def algebra_eq_def init_def)

text \<open>C6, on the algebra of the manifold \<open>M\<close>.\<close>

theorem reduce_roundtrip_witness:
  "domain CM = manifold_M \<and>
   snd (reduce CM) = [domain CM] \<and>
   (\<exists>b. construct (fst (reduce CM)) (snd (reduce CM)) = Inr b \<and> algebra_eq b CM)"
proof -
  have "domain CM = manifold_M"
    by (simp add: CM_def init_def)
  with reduce_roundtrip [of CM] show ?thesis
    by blast
qed

text \<open>
  C10. The constructor that \<^verbatim>\<open>__reduce__\<close> names is the class
  \<^verbatim>\<open>DiffScalarFieldAlgebra\<close>, whatever the runtime class of the instance, and what it
  builds from the pickled tuple is an instance of \<^verbatim>\<open>DiffScalarFieldAlgebra\<close>.
\<close>

theorem reduce_class_fixed:
  "fst (reduce a) = DiffScalarFieldAlgebra \<and>
   fst (reduce (a\<lparr>klass := c\<rparr>)) = fst (reduce a) \<and>
   (\<exists>b. construct (fst (reduce a)) (snd (reduce a)) = Inr b \<and>
        isinstance_DiffScalarFieldAlgebra (Object b))"
  by (simp add: reduce_def init_def DiffScalarFieldAlgebra_with_category_def)

text \<open>C10, on an instance of a user-defined subclass.\<close>

theorem reduce_class_fixed_witness:
  "fst (reduce \<lparr>klass = Derived ''MyAlgebra'' DiffScalarFieldAlgebra, domain = manifold_N\<rparr>)
     = DiffScalarFieldAlgebra"
  using reduce_class_fixed
    [of "\<lparr>klass = Derived ''MyAlgebra'' DiffScalarFieldAlgebra, domain = manifold_N\<rparr>"]
  by simp

section \<open>Frame\<close>

text \<open>
  C8. Each of the four methods hands back the object it was called on: the stored domain
  and the rest of the state of the algebra are the same after the call as before.
\<close>

theorem methods_leave_self_unchanged:
  "snd (run_state (coerce_map_from_st ops other) self) = self \<and>
   snd (run_state (repr_st ops) self) = self \<and>
   snd (run_state (latex_st ops) self) = self \<and>
   snd (run_state reduce_st self) = self"
  by (simp add: run_coerce_map_from_st run_repr_st run_latex_st run_reduce_st)


end
